theory Spec2Isabelle
  imports Main
begin

section \<open>Values and server state\<close>

text \<open>
  The WebSocket handlers of the repository are callbacks that run to completion on one
  thread.  Their effects are calls of \<^verbatim>\<open>send\<close> on sockets, lines written to the
  console and listener registrations.  The state below records exactly these, next to the
  two things the callbacks read: the set \<^verbatim>\<open>wss.clients\<close> (a JavaScript Set, iterated
  in insertion order, here a list of socket identities) and each socket's
  \<^verbatim>\<open>readyState\<close>.

  JSON values carry their numbers in a type parameter, since no handler computes with
  them.
\<close>

datatype 'n json =
    JNull
  | JBool bool
  | JNum 'n
  | JStr string
  | JArr "'n json list"
  | JObj "(string \<times> 'n json) list"

datatype ready_state = CONNECTING | OPEN | CLOSING | CLOSED

text \<open>
  What a handler passes to \<^verbatim>\<open>send\<close>: a plain string, or the result of
  \<^verbatim>\<open>JSON.stringify\<close> on an object, kept as the object.
\<close>

datatype 'n payload = Text string | Stringified "'n json"

text \<open>The arguments of one \<^verbatim>\<open>console.log\<close> or \<^verbatim>\<open>console.error\<close> call.\<close>

datatype js_error = SyntaxError | TypeError

datatype 'n piece = Str string | Num nat | Obj "'n json" | Err js_error

type_synonym 'n log_line = "'n piece list"

record 'n server =
  clients :: "nat list"
  readyState :: "nat \<Rightarrow> ready_state"
  sent :: "(nat \<times> 'n payload) list"
  console :: "'n log_line list"
  listening :: "nat list"

text \<open>
  \<open>sent\<close> is the chronological log of \<^verbatim>\<open>send\<close> calls (socket, payload);
  \<open>listening\<close> lists the sockets on which the connection callback has registered its
  \<^verbatim>\<open>message\<close>, \<^verbatim>\<open>close\<close> and \<^verbatim>\<open>error\<close> listeners.  A call of \<^verbatim>\<open>send\<close> is
  logged as the handler makes it and returns nothing the handlers look at; how the ws
  library buffers or transmits the payload is outside the repository.
\<close>

definition send :: "nat \<Rightarrow> 'n payload \<Rightarrow> 'n server \<Rightarrow> 'n server" where
  "send c p s = s\<lparr>sent := sent s @ [(c, p)]\<rparr>"

definition console_log :: "'n log_line \<Rightarrow> 'n server \<Rightarrow> 'n server" where
  "console_log l s = s\<lparr>console := console s @ [l]\<rparr>"

definition register_listeners :: "nat \<Rightarrow> 'n server \<Rightarrow> 'n server" where
  "register_listeners ws s = s\<lparr>listening := listening s @ [ws]\<rparr>"

definition sent_to :: "'n server \<Rightarrow> nat \<Rightarrow> 'n payload list" where
  "sent_to s c = map snd (filter (\<lambda>e. fst e = c) (sent s))"

section \<open>The shipped handler (src/ws/handler.ts)\<close>

text \<open>
  \<^verbatim>\<open>wss.clients.forEach(client => { if (client !== ws && client.readyState ===
  WebSocket.OPEN) client.send(`Broadcast: ${message}`) })\<close>, after the console line.
\<close>

definition shipped_on_message :: "'n server \<Rightarrow> nat \<Rightarrow> string \<Rightarrow> 'n server" where
  "shipped_on_message s ws message =
     fold (\<lambda>client s'.
             if client \<noteq> ws \<and> readyState s' client = OPEN
             then send client (Text (''Broadcast: '' @ message)) s'
             else s')
          (clients s)
          (console_log [Str (''Received message: '' @ message)] s)"

definition shipped_on_close :: "'n server \<Rightarrow> nat \<Rightarrow> 'n server" where
  "shipped_on_close s ws = console_log [Str ''Client disconnected''] s"

definition shipped_on_error :: "'n server \<Rightarrow> nat \<Rightarrow> string \<Rightarrow> 'n server" where
  "shipped_on_error s ws err = console_log [Str ''WebSocket error:'', Str err] s"

text \<open>
  The connection callback: a console line (its leading pictograph is left out here), the
  three listeners, then the welcome.
\<close>

definition shipped_welcome :: "'n payload" where
  "shipped_welcome = Text ''Welcome to the WebSocket server!''"

definition shipped_on_connection :: "'n server \<Rightarrow> nat \<Rightarrow> 'n server" where
  "shipped_on_connection s ws =
     send ws shipped_welcome
       (register_listeners ws
          (console_log [Str ''New client connected to WebSocket''] s))"

section \<open>The handler generated by setup.sh (WS_HANDLER_TS)\<close>

text \<open>
  The second handler of the repository is the text that setup.sh writes to
  src/ws/handler.ts.  It parses each frame and switches on the \<^verbatim>\<open>type\<close> property.
  \<^verbatim>\<open>JSON.parse\<close>, \<^verbatim>\<open>JSON.stringify\<close> and the clock belong to the JavaScript
  runtime and are parameters: \<open>JSON_parse\<close> returns \<open>None\<close> where the runtime throws a
  SyntaxError.  Every clock read of this handler sits inside the payload of one
  \<^verbatim>\<open>send\<close> call, so the clock is indexed by the number of calls logged so far.
\<close>

record 'n js_env =
  JSON_parse :: "string \<Rightarrow> 'n json option"
  JSON_stringify :: "'n json \<Rightarrow> string"
  toISOString :: "nat \<Rightarrow> string"

text \<open>
  Property read \<^verbatim>\<open>message.type\<close> / \<^verbatim>\<open>message.data\<close> on a parsed value: reading a
  property of \<^verbatim>\<open>null\<close> throws, an object yields its entry or \<^verbatim>\<open>undefined\<close>
  (\<open>None\<close>), and booleans, numbers, strings and arrays have neither property.
\<close>

fun member :: "string \<Rightarrow> 'n json \<Rightarrow> js_error + 'n json option" where
  "member k JNull = Inl TypeError"
| "member k (JObj kvs) = Inr (map_of kvs k)"
| "member k v = Inr None"

definition timestamp :: "'n js_env \<Rightarrow> 'n server \<Rightarrow> 'n json" where
  "timestamp env s = JStr (toISOString env (length (sent s)))"

definition welcome_msg :: "'n json \<Rightarrow> 'n json" where
  "welcome_msg ts =
     JObj [(''type'', JStr ''welcome''),
           (''message'', JStr (''Connected to Patrick'' @ [CHR 0x27] @ ''s Topshelf WebSocket server'')),
           (''timestamp'', ts)]"

definition pong_msg :: "'n json \<Rightarrow> 'n json" where
  "pong_msg ts = JObj [(''type'', JStr ''pong''), (''timestamp'', ts)]"

text \<open>\<^verbatim>\<open>JSON.stringify\<close> drops a property whose value is \<^verbatim>\<open>undefined\<close>.\<close>

definition broadcast_msg :: "'n json option \<Rightarrow> 'n json \<Rightarrow> 'n json" where
  "broadcast_msg d ts =
     JObj ([(''type'', JStr ''broadcast'')]
           @ (case d of None \<Rightarrow> [] | Some v \<Rightarrow> [(''message'', v)])
           @ [(''from'', JStr ''server''), (''timestamp'', ts)])"

definition echo_msg :: "'n js_env \<Rightarrow> 'n json \<Rightarrow> 'n json \<Rightarrow> 'n json" where
  "echo_msg env message ts =
     JObj [(''type'', JStr ''echo''),
           (''originalMessage'', message),
           (''timestamp'', ts),
           (''echo'', JStr (''Server received: '' @ JSON_stringify env message))]"

definition error_msg :: "'n json \<Rightarrow> 'n json" where
  "error_msg ts =
     JObj [(''type'', JStr ''error''),
           (''message'', JStr ''Invalid JSON format''),
           (''timestamp'', ts)]"

text \<open>The \<^verbatim>\<open>catch\<close> block, entered with the error that was thrown.\<close>

definition generated_catch ::
  "'n js_env \<Rightarrow> 'n server \<Rightarrow> nat \<Rightarrow> js_error \<Rightarrow> 'n server" where
  "generated_catch env s ws e =
     (let s1 = console_log [Str ''[WebSocket] Error parsing message:'', Err e] s
      in send ws (Stringified (error_msg (timestamp env s1))) s1)"

text \<open>
  The \<^verbatim>\<open>forEach\<close> of the \<^verbatim>\<open>"broadcast"\<close> case.  The source reads
  \<^verbatim>\<open>message.data\<close> inside the callback; the read is the same for every client and is
  passed in as \<open>d\<close>.
\<close>

definition generated_broadcast ::
  "'n js_env \<Rightarrow> 'n server \<Rightarrow> nat \<Rightarrow> 'n json option \<Rightarrow> 'n server" where
  "generated_broadcast env s ws d =
     fold (\<lambda>client s'.
             if client \<noteq> ws \<and> readyState s' client = OPEN
             then send client (Stringified (broadcast_msg d (timestamp env s'))) s'
             else s')
          (clients s) s"

definition generated_on_message :: "'n js_env \<Rightarrow> 'n server \<Rightarrow> nat \<Rightarrow> string \<Rightarrow> 'n server" where
  "generated_on_message env s ws data =
     (case JSON_parse env data of
        None \<Rightarrow> generated_catch env s ws SyntaxError
      | Some message \<Rightarrow>
          (let s1 = console_log [Str ''[WebSocket] Received:'', Obj message] s
           in case member ''type'' message of
                Inl e \<Rightarrow> generated_catch env s1 ws e
              | Inr t \<Rightarrow>
                  if t = Some (JStr ''ping'')
                  then send ws (Stringified (pong_msg (timestamp env s1))) s1
                  else if t = Some (JStr ''broadcast'')
                  then (case member ''data'' message of
                          Inl e \<Rightarrow> generated_catch env s1 ws e
                        | Inr d \<Rightarrow> generated_broadcast env s1 ws d)
                  else send ws (Stringified (echo_msg env message (timestamp env s1))) s1))"

definition generated_on_close :: "'n server \<Rightarrow> nat \<Rightarrow> nat \<Rightarrow> string \<Rightarrow> 'n server" where
  "generated_on_close s ws code reason =
     console_log [Str ''[WebSocket] Connection closed: '', Num code, Str '' - '', Str reason] s"

definition generated_on_error :: "'n server \<Rightarrow> nat \<Rightarrow> string \<Rightarrow> 'n server" where
  "generated_on_error s ws err =
     console_log [Str ''[WebSocket] Connection error:'', Str err] s"

text \<open>
  The connection callback: console line, welcome, then the three listeners.
\<close>

definition generated_on_connection ::
  "'n js_env \<Rightarrow> 'n server \<Rightarrow> nat \<Rightarrow> string \<Rightarrow> 'n server" where
  "generated_on_connection env s ws clientIP =
     (let s1 = console_log [Str (''[WebSocket] New connection from '' @ clientIP)] s
      in register_listeners ws
           (send ws (Stringified (welcome_msg (timestamp env s1))) s1))"

section \<open>Set-up and the event loop\<close>

text \<open>
  \<^verbatim>\<open>setupWebSocket\<close> creates the server, registers the connection callback and writes
  one console line; no socket exists yet.
\<close>

definition shipped_setupWebSocket :: "'n server" where
  "shipped_setupWebSocket =
     \<lparr>clients = [], readyState = (\<lambda>_. CONNECTING), sent = [],
      console = [[Str ''WebSocket server setup complete.'']], listening = []\<rparr>"

definition generated_setupWebSocket :: "'n server" where
  "generated_setupWebSocket =
     \<lparr>clients = [], readyState = (\<lambda>_. CONNECTING), sent = [],
      console = [[Str ''[WebSocket] Server initialized and ready'']], listening = []\<rparr>"

text \<open>
  The events the runtime dispatches, one callback at a time.  \<open>Library cs rs\<close> stands for
  anything the ws library does between two callbacks: it leaves \<^verbatim>\<open>wss.clients\<close> as
  \<open>cs\<close> and the sockets' states as \<open>rs\<close>.  An event of a socket reaches a listener only
  if the connection callback has registered one on that socket.
\<close>

datatype event =
    Connection nat string
  | Message nat string
  | Close nat nat string
  | Error nat string
  | Library "nat list" "nat \<Rightarrow> ready_state"

fun shipped_dispatch :: "'n server \<Rightarrow> event \<Rightarrow> 'n server" where
  "shipped_dispatch s (Connection ws ip) = shipped_on_connection s ws"
| "shipped_dispatch s (Message ws data) =
     (if ws \<in> set (listening s) then shipped_on_message s ws data else s)"
| "shipped_dispatch s (Close ws code reason) =
     (if ws \<in> set (listening s) then shipped_on_close s ws else s)"
| "shipped_dispatch s (Error ws err) =
     (if ws \<in> set (listening s) then shipped_on_error s ws err else s)"
| "shipped_dispatch s (Library cs rs) = s\<lparr>clients := cs, readyState := rs\<rparr>"

fun generated_dispatch :: "'n js_env \<Rightarrow> 'n server \<Rightarrow> event \<Rightarrow> 'n server" where
  "generated_dispatch env s (Connection ws ip) = generated_on_connection env s ws ip"
| "generated_dispatch env s (Message ws data) =
     (if ws \<in> set (listening s) then generated_on_message env s ws data else s)"
| "generated_dispatch env s (Close ws code reason) =
     (if ws \<in> set (listening s) then generated_on_close s ws code reason else s)"
| "generated_dispatch env s (Error ws err) =
     (if ws \<in> set (listening s) then generated_on_error s ws err else s)"
| "generated_dispatch env s (Library cs rs) = s\<lparr>clients := cs, readyState := rs\<rparr>"

text \<open>The sockets announced by the connection events of a run, in order.\<close>

fun connections :: "event list \<Rightarrow> nat list" where
  "connections [] = []"
| "connections (Connection ws ip # es) = ws # connections es"
| "connections (e # es) = connections es"

text \<open>A payload that is a stringified object whose \<^verbatim>\<open>type\<close> property is \<open>t\<close>.\<close>

fun tagged :: "string \<Rightarrow> 'n payload \<Rightarrow> bool" where
  "tagged t (Stringified j) = (member ''type'' j = Inr (Some (JStr t)))"
| "tagged t (Text x) = False"

section \<open>The REST routes\<close>

text \<open>
  What a route callback hands to \<^verbatim>\<open>res\<close>: the status code (200 unless set) and the
  object given to \<^verbatim>\<open>res.json\<close>.
\<close>

record 'n response =
  status_code :: nat
  body :: "'n json"

text \<open>The properties of a response body, in the order \<^verbatim>\<open>res.json\<close> writes them.\<close>

fun properties :: "'n json \<Rightarrow> (string \<times> 'n json) list" where
  "properties (JObj kvs) = kvs"
| "properties v = []"

text \<open>src/api/routes.ts as shipped: \<^verbatim>\<open>GET /health\<close>.\<close>

definition shipped_health :: "'n response" where
  "shipped_health = \<lparr>status_code = 200, body = JObj [(''status'', JStr ''UP'')]\<rparr>"

text \<open>
  src/api/routes.ts as setup.sh generates it: \<^verbatim>\<open>GET /status\<close> and \<^verbatim>\<open>GET /info\<close>.  The
  clock, \<^verbatim>\<open>process.uptime()\<close> and the environment variable are inputs.
\<close>

record 'n process =
  now :: string
  uptime :: 'n
  NODE_ENV :: "string option"

definition generated_status :: "'n process \<Rightarrow> 'n response" where
  "generated_status p =
     \<lparr>status_code = 200,
      body = JObj [(''status'', JStr ''ok''),
                   (''timestamp'', JStr (now p)),
                   (''uptime'', JNum (uptime p)),
                   (''environment'',
                      JStr (case NODE_ENV p of
                              None \<Rightarrow> ''development''
                            | Some e \<Rightarrow> if e = [] then ''development'' else e))]\<rparr>"

definition generated_info :: "'n response" where
  "generated_info =
     \<lparr>status_code = 200,
      body = JObj [(''name'', JStr ''Topshelf API Server''),
                   (''version'', JStr ''1.0.0''),
                   (''description'', JStr ''REST API and WebSocket server by Patrick Craven''),
                   (''endpoints'', JObj [(''status'', JStr ''/api/status''),
                                         (''info'', JStr ''/api/info'')]),
                   (''websocket'', JObj [(''url'', JStr ''ws://localhost:3000''),
                                         (''description'', JStr ''Real-time WebSocket connection'')])]\<rparr>"

section \<open>Auxiliary definitions for the proofs\<close>

text \<open>
  The calls a fan-out logs for the recipients \<open>cs\<close> when the log already holds \<open>n\<close>
  calls and the payload of a call is computed from the current length of the log.
\<close>

fun stamped :: "(nat \<Rightarrow> 'n payload) \<Rightarrow> nat \<Rightarrow> nat list \<Rightarrow> (nat \<times> 'n payload) list" where
  "stamped mk n [] = []"
| "stamped mk n (c # cs) = (c, mk n) # stamped mk (Suc n) cs"

text \<open>How many payloads satisfying \<open>W\<close> socket \<open>ws\<close> has been sent.\<close>

definition welcomes :: "('n payload \<Rightarrow> bool) \<Rightarrow> 'n server \<Rightarrow> nat \<Rightarrow> nat" where
  "welcomes W s ws = length (filter W (sent_to s ws))"

definition shipped_run :: "event list \<Rightarrow> 'n server" where
  "shipped_run es = foldl shipped_dispatch shipped_setupWebSocket es"

definition generated_run :: "'n js_env \<Rightarrow> event list \<Rightarrow> 'n server" where
  "generated_run env es = foldl (generated_dispatch env) generated_setupWebSocket es"

subsection \<open>Concrete inputs\<close>

text \<open>
  Three registered sockets, the third one closing; and a runtime whose parser knows four
  frames and rejects every other text.
\<close>

definition example_server :: "nat server" where
  "example_server =
     \<lparr>clients = [0, 1, 2], readyState = (\<lambda>c. if c = 2 then CLOSING else OPEN),
      sent = [], console = [], listening = [0, 1, 2]\<rparr>"

definition dq :: "string \<Rightarrow> string" where
  "dq x = CHR 0x22 # x @ [CHR 0x22]"

definition ping_frame :: string where
  "ping_frame = ''{'' @ dq ''type'' @ '':'' @ dq ''ping'' @ ''}''"

definition broadcast_frame :: string where
  "broadcast_frame =
     ''{'' @ dq ''type'' @ '':'' @ dq ''broadcast'' @ '','' @ dq ''data'' @ '':'' @ dq ''hi'' @ ''}''"

definition chat_frame :: string where
  "chat_frame = ''{'' @ dq ''type'' @ '':'' @ dq ''chat'' @ ''}''"

definition example_env :: "nat js_env" where
  "example_env =
     \<lparr>JSON_parse = (\<lambda>d.
         if d = ping_frame then Some (JObj [(''type'', JStr ''ping'')])
         else if d = broadcast_frame
           then Some (JObj [(''type'', JStr ''broadcast''), (''data'', JStr ''hi'')])
         else if d = chat_frame then Some (JObj [(''type'', JStr ''chat'')])
         else if d = ''null'' then Some JNull
         else None),
      JSON_stringify = (\<lambda>j. if j = JObj [(''type'', JStr ''chat'')] then chat_frame else []),
      toISOString = (\<lambda>n. ''2025-06-06T00:00:00.000Z'')\<rparr>"

text \<open>
  Two open sockets, with \<open>n\<close> calls of \<^verbatim>\<open>send\<close> already logged for socket 1.
\<close>

definition flooded :: "nat \<Rightarrow> nat server" where
  "flooded n =
     \<lparr>clients = [0, 1], readyState = (\<lambda>_. OPEN),
      sent = replicate n (1, Text ''Broadcast: x''), console = [], listening = [0, 1]\<rparr>"

text \<open>
  A run: two sockets connect, each after the library has registered it, and each sends
  one frame.
\<close>

definition example_events :: "event list" where
  "example_events =
     [Library [0] (\<lambda>_. OPEN), Connection 0 ''10.0.0.1'',
      Library [0, 1] (\<lambda>_. OPEN), Connection 1 ''10.0.0.2'',
      Message 0 ''hi'', Message 1 ''hi'']"

section \<open>The fan-out loop\<close>

lemma forEach_send:
  "fold (\<lambda>client s'. if client \<noteq> ws \<and> readyState s' client = OPEN
                      then send client (mk (length (sent s'))) s' else s') cs s
   = s\<lparr>sent := sent s @ stamped mk (length (sent s))
                              (filter (\<lambda>c. c \<noteq> ws \<and> readyState s c = OPEN) cs)\<rparr>"
proof (induction cs arbitrary: s)
  case Nil
  show ?case by simp
next
  case (Cons c cs)
  show ?case
    by (simp add: Cons.IH send_def)
qed

lemma stamped_const: "stamped (\<lambda>_. p) n cs = map (\<lambda>c. (c, p)) cs"
  by (induction cs arbitrary: n) simp_all

lemma stamped_absent: "c \<notin> set cs \<Longrightarrow> filter (\<lambda>e. fst e = c) (stamped mk n cs) = []"
  by (induction cs arbitrary: n) auto

lemma stamped_once:
  "distinct cs \<Longrightarrow> c \<in> set cs \<Longrightarrow>
   \<exists>k. n \<le> k \<and> k < n + length cs \<and> filter (\<lambda>e. fst e = c) (stamped mk n cs) = [(c, mk k)]"
proof (induction cs arbitrary: n)
  case Nil
  then show ?case by simp
next
  case (Cons a cs)
  show ?case
  proof (cases "a = c")
    case True
    with Cons.prems have "c \<notin> set cs" by simp
    then have "filter (\<lambda>e. fst e = c) (stamped mk (Suc n) cs) = []"
      by (rule stamped_absent)
    with True show ?thesis by (intro exI [of _ n]) simp
  next
    case False
    with Cons.prems have "distinct cs" "c \<in> set cs" by simp_all
    from Cons.IH [OF this, of "Suc n"] obtain k where
      "Suc n \<le> k" "k < Suc n + length cs"
      "filter (\<lambda>e. fst e = c) (stamped mk (Suc n) cs) = [(c, mk k)]" by blast
    with False show ?thesis by (intro exI [of _ k]) simp
  qed
qed

lemma shipped_on_message_eq:
  "shipped_on_message s ws m =
     s\<lparr>console := console s @ [[Str (''Received message: '' @ m)]],
       sent := sent s @ map (\<lambda>c. (c, Text (''Broadcast: '' @ m)))
                            (filter (\<lambda>c. c \<noteq> ws \<and> readyState s c = OPEN) (clients s))\<rparr>"
  unfolding shipped_on_message_def
  using forEach_send [of ws "\<lambda>_. Text (''Broadcast: '' @ m)" "clients s"
                         "console_log [Str (''Received message: '' @ m)] s"]
  by (simp add: stamped_const console_log_def)

lemma generated_broadcast_eq:
  "generated_broadcast env s ws d =
     s\<lparr>sent := sent s @ stamped (\<lambda>n. Stringified (broadcast_msg d (JStr (toISOString env n))))
                              (length (sent s))
                              (filter (\<lambda>c. c \<noteq> ws \<and> readyState s c = OPEN) (clients s))\<rparr>"
  unfolding generated_broadcast_def timestamp_def
  by (rule forEach_send)

section \<open>Facts about the two message handlers\<close>

lemma sent_to_append:
  "sent_to (s\<lparr>sent := sent s @ new\<rparr>) c = sent_to s c @ map snd (filter (\<lambda>e. fst e = c) new)"
  by (simp add: sent_to_def)

lemma sent_to_console [simp]: "sent_to (console_log l s) c = sent_to s c"
  by (simp add: sent_to_def console_log_def)

lemma shipped_on_message_stamped:
  "shipped_on_message s ws m =
     s\<lparr>console := console s @ [[Str (''Received message: '' @ m)]],
       sent := sent s @ stamped (\<lambda>_. Text (''Broadcast: '' @ m)) (length (sent s))
                            (filter (\<lambda>c. c \<noteq> ws \<and> readyState s c = OPEN) (clients s))\<rparr>"
  by (simp add: shipped_on_message_eq stamped_const)

lemma sent_to_shipped_on_message:
  "sent_to (shipped_on_message s ws m) c =
     sent_to s c @ map snd (filter (\<lambda>e. fst e = c)
       (stamped (\<lambda>_. Text (''Broadcast: '' @ m)) (length (sent s))
          (filter (\<lambda>c. c \<noteq> ws \<and> readyState s c = OPEN) (clients s))))"
  unfolding shipped_on_message_stamped sent_to_def by simp

lemma member_type_object:
  "member ''type'' msg = Inr (Some t) \<Longrightarrow> \<exists>kvs. msg = JObj kvs \<and> map_of kvs ''type'' = Some t"
  by (cases msg) simp_all

lemma generated_on_message_broadcast:
  assumes "JSON_parse env data = Some msg"
    and "member ''type'' msg = Inr (Some (JStr ''broadcast''))"
  shows "\<exists>d. member ''data'' msg = Inr d \<and>
             generated_on_message env s ws data =
               generated_broadcast env (console_log [Str ''[WebSocket] Received:'', Obj msg] s) ws d"
proof -
  from member_type_object [OF assms(2)] obtain kvs where
    msg: "msg = JObj kvs" and ty: "map_of kvs ''type'' = Some (JStr ''broadcast'')" by blast
  show ?thesis
    using assms(1) ty by (simp add: msg generated_on_message_def Let_def)
qed

lemma generated_on_message_ping:
  assumes "JSON_parse env data = Some msg"
    and "member ''type'' msg = Inr (Some (JStr ''ping''))"
  shows "generated_on_message env s ws data =
           send ws (Stringified (pong_msg (JStr (toISOString env (length (sent s))))))
             (console_log [Str ''[WebSocket] Received:'', Obj msg] s)"
  using assms by (simp add: generated_on_message_def Let_def timestamp_def console_log_def)

lemma generated_on_message_default:
  assumes "JSON_parse env data = Some msg"
    and "member ''type'' msg = Inr t"
    and "t \<noteq> Some (JStr ''ping'')" and "t \<noteq> Some (JStr ''broadcast'')"
  shows "generated_on_message env s ws data =
           send ws (Stringified (echo_msg env msg (JStr (toISOString env (length (sent s))))))
             (console_log [Str ''[WebSocket] Received:'', Obj msg] s)"
  using assms by (simp add: generated_on_message_def Let_def timestamp_def console_log_def)

lemma generated_on_message_syntax_error:
  assumes "JSON_parse env data = None"
  shows "generated_on_message env s ws data =
           send ws (Stringified (error_msg (JStr (toISOString env (length (sent s))))))
             (console_log [Str ''[WebSocket] Error parsing message:'', Err SyntaxError] s)"
  using assms
  by (simp add: generated_on_message_def generated_catch_def Let_def timestamp_def console_log_def)

lemma shipped_on_message_skips:
  fixes s :: "'n server"
  assumes "readyState s c \<noteq> OPEN"
  shows "sent_to (shipped_on_message s ws m) c = sent_to s c"
proof -
  have "c \<notin> set (filter (\<lambda>c. c \<noteq> ws \<and> readyState s c = OPEN) (clients s))"
    using assms by simp
  then have "filter (\<lambda>e. fst e = c)
               (stamped (\<lambda>_. Text (''Broadcast: '' @ m) :: 'n payload) (length (sent s))
                  (filter (\<lambda>c. c \<noteq> ws \<and> readyState s c = OPEN) (clients s))) = []"
    by (rule stamped_absent)
  then show ?thesis
    by (simp add: sent_to_shipped_on_message)
qed

lemma generated_broadcast_skips:
  assumes "JSON_parse env data = Some msg"
    and "member ''type'' msg = Inr (Some (JStr ''broadcast''))"
    and "readyState s c \<noteq> OPEN"
  shows "sent_to (generated_on_message env s ws data) c = sent_to s c"
proof -
  let ?s1 = "console_log [Str ''[WebSocket] Received:'', Obj msg] s"
  from generated_on_message_broadcast [OF assms(1,2), of s ws] obtain d where
    eq: "generated_on_message env s ws data = generated_broadcast env ?s1 ws d"
    by blast
  have rs: "readyState ?s1 = readyState s" by (simp add: console_log_def)
  have "c \<notin> set (filter (\<lambda>c. c \<noteq> ws \<and> readyState ?s1 c = OPEN) (clients ?s1))"
    using assms(3) by (simp add: rs)
  then show ?thesis
    by (simp add: eq generated_broadcast_eq sent_to_append stamped_absent)
qed

subsection \<open>The concrete inputs, evaluated\<close>

lemma example_parse:
  "JSON_parse example_env ping_frame = Some (JObj [(''type'', JStr ''ping'')])"
  "JSON_parse example_env chat_frame = Some (JObj [(''type'', JStr ''chat'')])"
  "JSON_parse example_env ''not json'' = None"
  "JSON_parse example_env ''null'' = Some JNull"
  "JSON_stringify example_env (JObj [(''type'', JStr ''chat'')]) = chat_frame"
  "toISOString example_env n = ''2025-06-06T00:00:00.000Z''"
  by (simp_all add: example_env_def ping_frame_def broadcast_frame_def chat_frame_def dq_def)

text \<open>
  The frame \<^verbatim>\<open>null\<close> parses, but reading its \<^verbatim>\<open>type\<close> throws inside the
  \<^verbatim>\<open>try\<close> block: the generated handler answers it like text that does not parse.
\<close>

lemma generated_null_gets_error_reply:
  assumes "JSON_parse env data = Some JNull"
  shows "sent (generated_on_message env s ws data)
           = sent s @ [(ws, Stringified (error_msg (JStr (toISOString env (length (sent s))))))]"
  using assms
  by (simp add: generated_on_message_def generated_catch_def Let_def timestamp_def
      console_log_def send_def)

subsection \<open>Counting welcomes\<close>

lemma connections_Cons: "connections (e # es) = connections [e] @ connections es"
  by (cases e) simp_all

lemma welcomes_more:
  "welcomes W (s\<lparr>sent := sent s @ new\<rparr>) ws =
     welcomes W s ws + length (filter W (map snd (filter (\<lambda>e. fst e = ws) new)))"
  by (simp add: welcomes_def sent_to_def)

lemma welcomes_console [simp]: "welcomes W (console_log l s) ws = welcomes W s ws"
  by (simp add: welcomes_def sent_to_def console_log_def)

lemma welcomes_listeners [simp]: "welcomes W (register_listeners c s) ws = welcomes W s ws"
  by (simp add: welcomes_def sent_to_def register_listeners_def)

lemma welcomes_library [simp]:
  "welcomes W (s\<lparr>clients := cs, readyState := rs\<rparr>) ws = welcomes W s ws"
  by (simp add: welcomes_def sent_to_def)

lemma welcomes_send:
  "welcomes W (send c p s) ws = welcomes W s ws + (if c = ws \<and> W p then 1 else 0)"
  by (simp add: welcomes_def sent_to_def send_def)

lemma no_welcome_in_stamped:
  "(\<And>n. \<not> W (mk n)) \<Longrightarrow> filter W (map snd (filter P (stamped mk n cs))) = []"
  by (induction cs arbitrary: n) simp_all

subsection \<open>Welcomes along a run of the shipped handler\<close>

lemma shipped_on_message_welcomes:
  "welcomes (\<lambda>p. p = shipped_welcome) (shipped_on_message s ws' m) ws
     = welcomes (\<lambda>p. p = shipped_welcome) s ws"
  by (simp add: shipped_on_message_eq welcomes_def sent_to_def shipped_welcome_def
      filter_map o_def)

lemma shipped_dispatch_welcomes:
  "welcomes (\<lambda>p. p = shipped_welcome) (shipped_dispatch s e) ws
     = welcomes (\<lambda>p. p = shipped_welcome) s ws + count_list (connections [e]) ws"
  by (cases e)
    (simp_all add: shipped_on_message_welcomes shipped_on_connection_def welcomes_send
      shipped_on_close_def shipped_on_error_def)

lemma shipped_dispatch_listening:
  "set (listening (shipped_dispatch s e)) = set (listening s) \<union> set (connections [e])"
  by (cases e)
    (simp_all add: shipped_on_message_eq shipped_on_connection_def send_def
      register_listeners_def console_log_def shipped_on_close_def shipped_on_error_def)

lemma shipped_foldl_welcomes:
  "welcomes (\<lambda>p. p = shipped_welcome) (foldl shipped_dispatch s es) ws
     = welcomes (\<lambda>p. p = shipped_welcome) s ws + count_list (connections es) ws"
proof (induction es arbitrary: s)
  case Nil
  show ?case by simp
next
  case (Cons e es)
  have "count_list (connections (e # es)) ws
          = count_list (connections [e]) ws + count_list (connections es) ws"
    by (subst connections_Cons) simp
  then show ?case
    by (simp add: Cons.IH shipped_dispatch_welcomes)
qed

lemma shipped_foldl_listening:
  "set (listening (foldl shipped_dispatch s es)) = set (listening s) \<union> set (connections es)"
proof (induction es arbitrary: s)
  case Nil
  show ?case by simp
next
  case (Cons e es)
  have "set (connections (e # es)) = set (connections [e]) \<union> set (connections es)"
    by (subst connections_Cons) simp
  then show ?case
    by (simp add: Cons.IH shipped_dispatch_listening Un_assoc)
qed

subsection \<open>Welcomes along a run of the generated handler\<close>

lemma generated_on_message_welcomes:
  "welcomes (tagged ''welcome'') (generated_on_message env s ws' data) ws
     = welcomes (tagged ''welcome'') s ws"
proof -
  have b: "filter (tagged ''welcome'')
          (map snd (filter (\<lambda>e. fst e = ws)
             (stamped (\<lambda>n. Stringified (broadcast_msg d (JStr (toISOString env n)))) n cs))) = []"
    for n cs and d :: "'a json option"
    by (rule no_welcome_in_stamped) (simp add: broadcast_msg_def)
  have c: "welcomes (tagged ''welcome'') (generated_catch env s0 ws' e) ws
             = welcomes (tagged ''welcome'') s0 ws" for s0 e
    by (simp add: generated_catch_def Let_def welcomes_send error_msg_def)
  have g: "welcomes (tagged ''welcome'') (generated_broadcast env s0 ws' d) ws
             = welcomes (tagged ''welcome'') s0 ws" for s0 d
    by (simp add: generated_broadcast_eq welcomes_more b)
  show ?thesis
    by (auto simp: generated_on_message_def Let_def c g welcomes_send pong_msg_def echo_msg_def
        split: option.splits sum.splits)
qed

lemma generated_on_message_listening:
  "listening (generated_on_message env s ws data) = listening s"
  by (auto simp: generated_on_message_def Let_def generated_catch_def generated_broadcast_eq
      send_def console_log_def split: option.splits sum.splits)

lemma generated_dispatch_welcomes:
  "welcomes (tagged ''welcome'') (generated_dispatch env s e) ws
     = welcomes (tagged ''welcome'') s ws + count_list (connections [e]) ws"
  by (cases e)
    (simp_all add: generated_on_message_welcomes generated_on_connection_def welcomes_send
      generated_on_close_def generated_on_error_def Let_def welcome_msg_def)

lemma generated_dispatch_listening:
  "set (listening (generated_dispatch env s e)) = set (listening s) \<union> set (connections [e])"
  by (cases e)
    (simp_all add: generated_on_message_listening generated_on_connection_def send_def
      register_listeners_def console_log_def generated_on_close_def generated_on_error_def
      Let_def)

lemma generated_foldl_welcomes:
  "welcomes (tagged ''welcome'') (foldl (generated_dispatch env) s es) ws
     = welcomes (tagged ''welcome'') s ws + count_list (connections es) ws"
proof (induction es arbitrary: s)
  case Nil
  show ?case by simp
next
  case (Cons e es)
  have "count_list (connections (e # es)) ws
          = count_list (connections [e]) ws + count_list (connections es) ws"
    by (subst connections_Cons) simp
  then show ?case
    by (simp add: Cons.IH generated_dispatch_welcomes)
qed

lemma generated_foldl_listening:
  "set (listening (foldl (generated_dispatch env) s es))
     = set (listening s) \<union> set (connections es)"
proof (induction es arbitrary: s)
  case Nil
  show ?case by simp
next
  case (Cons e es)
  have "set (connections (e # es)) = set (connections [e]) \<union> set (connections es)"
    by (subst connections_Cons) simp
  then show ?case
    by (simp add: Cons.IH generated_dispatch_listening Un_assoc)
qed

lemma count_list_distinct: "distinct xs \<Longrightarrow> x \<in> set xs \<Longrightarrow> count_list xs x = 1"
  by (induction xs) (auto simp: count_list_0_iff)

lemma example_run:
  "listening (shipped_run example_events :: nat server) = [0, 1]"
  "listening (generated_run example_env example_events) = [0, 1]"
  by (simp_all add: example_events_def shipped_run_def generated_run_def
      shipped_setupWebSocket_def generated_setupWebSocket_def shipped_on_connection_def
      generated_on_connection_def shipped_on_message_eq generated_on_message_listening
      send_def register_listeners_def console_log_def Let_def)

section \<open>The shipped handler rebroadcasts every frame\<close>

text \<open>
  Claim C9.  In the shipped handler, whatever the inbound text \<open>m\<close> is (a ping, an echo
  request, text that is no JSON at all), the calls of \<^verbatim>\<open>send\<close> that the message
  handler adds are exactly one per other client whose \<^verbatim>\<open>readyState\<close> is OPEN, in the
  order of \<^verbatim>\<open>wss.clients\<close>, each with the payload \<^verbatim>\<open>"Broadcast: "\<close> followed by the raw
  text.  The sender is sent nothing: no pong, no echo and no error reply.
\<close>

theorem shipped_rebroadcasts_every_frame:
  "sent (shipped_on_message s ws m) =
     sent s @ map (\<lambda>c. (c, Text (''Broadcast: '' @ m)))
                  (filter (\<lambda>c. c \<noteq> ws \<and> readyState s c = OPEN) (clients s))
   \<and> sent_to (shipped_on_message s ws m) ws = sent_to s ws"
  by (simp add: shipped_on_message_eq sent_to_def filter_map o_def)

theorem shipped_rebroadcasts_every_frame_witness:
  "sent (shipped_on_message example_server 1 ''hello'') = [(0, Text ''Broadcast: hello'')]
   \<and> sent_to (shipped_on_message example_server 1 ''hello'') 1 = []"
  using shipped_rebroadcasts_every_frame [of example_server 1 "''hello''"]
  by (simp add: example_server_def sent_to_def)

section \<open>The fan-out skips sockets that are not open\<close>

text \<open>
  Claim C10.  In both handlers the fan-out sends to a client only if its
  \<^verbatim>\<open>readyState\<close> is OPEN when the loop reaches it: a client \<open>c\<close> in any other state
  is sent nothing by the shipped message handler, and nothing by the generated handler
  when the frame is a broadcast request.
\<close>

theorem fanout_skips_non_open:
  fixes s :: "'n server"
  assumes "readyState s c \<noteq> OPEN"
  shows "sent_to (shipped_on_message s ws m) c = sent_to s c
       \<and> (JSON_parse env data = Some msg \<and> member ''type'' msg = Inr (Some (JStr ''broadcast''))
            \<longrightarrow> sent_to (generated_on_message env s ws data) c = sent_to s c)"
proof (intro conjI impI)
  have "c \<notin> set (filter (\<lambda>c. c \<noteq> ws \<and> readyState s c = OPEN) (clients s))"
    using assms by simp
  then have "filter (\<lambda>e. fst e = c)
               (stamped (\<lambda>_. Text (''Broadcast: '' @ m) :: 'n payload) (length (sent s))
                  (filter (\<lambda>c. c \<noteq> ws \<and> readyState s c = OPEN) (clients s))) = []"
    by (rule stamped_absent)
  then show "sent_to (shipped_on_message s ws m) c = sent_to s c"
    by (simp add: sent_to_shipped_on_message)
next
  assume a: "JSON_parse env data = Some msg \<and> member ''type'' msg = Inr (Some (JStr ''broadcast''))"
  then obtain d where
    eq: "generated_on_message env s ws data =
           generated_broadcast env (console_log [Str ''[WebSocket] Received:'', Obj msg] s) ws d"
    using generated_on_message_broadcast [of env data msg s ws] by blast
  let ?s1 = "console_log [Str ''[WebSocket] Received:'', Obj msg] s"
  have rs: "readyState ?s1 = readyState s" by (simp add: console_log_def)
  have "c \<notin> set (filter (\<lambda>c. c \<noteq> ws \<and> readyState ?s1 c = OPEN) (clients ?s1))"
    using assms by (simp add: rs)
  then show "sent_to (generated_on_message env s ws data) c = sent_to s c"
    by (simp add: eq generated_broadcast_eq sent_to_append stamped_absent)
qed

theorem fanout_skips_non_open_witness:
  "readyState example_server 2 \<noteq> OPEN
   \<and> sent_to (shipped_on_message example_server 0 ''hi'') 2 = []
   \<and> JSON_parse example_env broadcast_frame
       = Some (JObj [(''type'', JStr ''broadcast''), (''data'', JStr ''hi'')])
   \<and> sent_to (generated_on_message example_env example_server 0 broadcast_frame) 2 = []"
proof -
  have h: "readyState example_server 2 \<noteq> OPEN" by (simp add: example_server_def)
  have p: "JSON_parse example_env broadcast_frame
             = Some (JObj [(''type'', JStr ''broadcast''), (''data'', JStr ''hi'')])"
    by (simp add: example_env_def broadcast_frame_def ping_frame_def dq_def)
  have e: "sent_to example_server 2 = []" by (simp add: example_server_def sent_to_def)
  show ?thesis
    using h p e
      fanout_skips_non_open [OF h, of 0 "''hi''" example_env broadcast_frame
        "JObj [(''type'', JStr ''broadcast''), (''data'', JStr ''hi'')]"]
    by simp
qed

section \<open>Broadcast exclusion\<close>

text \<open>
  Claim C1 says that a broadcast from \<open>X\<close> reaches every other registered connection.
  Both loops carry the guard \<^verbatim>\<open>client.readyState === WebSocket.OPEN\<close>, and
  \<^verbatim>\<open>wss.clients\<close> still holds a socket while it is closing: with sockets 0, 1, 2
  registered and socket 2 closing, a broadcast from socket 0 sends socket 2 nothing, in
  the shipped handler and in the generated one.
\<close>

theorem broadcast_skips_registered_closing_counterexample:
  "2 \<in> set (clients example_server) \<and> (2::nat) \<noteq> 0
   \<and> sent_to (shipped_on_message example_server 0 ''hi'') 2 = sent_to example_server 2
   \<and> sent_to (generated_on_message example_env example_server 0 broadcast_frame) 2
       = sent_to example_server 2"
  by (simp add: example_server_def example_env_def sent_to_def shipped_on_message_def
      generated_on_message_def generated_broadcast_def send_def console_log_def Let_def
      broadcast_frame_def ping_frame_def dq_def)

text \<open>
  Claim C1, amended.  A broadcast from \<open>ws\<close> is never sent to \<open>ws\<close> itself, and every
  other registered connection whose \<^verbatim>\<open>readyState\<close> is OPEN is sent it exactly once:
  the shipped handler appends the prefixed raw text to what \<open>c\<close> was sent before, the
  generated handler appends one object tagged \<^verbatim>\<open>broadcast\<close> that carries the frame's
  \<^verbatim>\<open>data\<close>.  A connection \<open>c'\<close> in any other state, registered or not, is skipped: it
  is sent nothing.  (\<^verbatim>\<open>wss.clients\<close> is a Set, so the list of clients is distinct.)
\<close>

theorem broadcast_excludes_sender_reaches_open:
  fixes s :: "'n server"
  assumes "distinct (clients s)" and "c \<in> set (clients s)" and "c \<noteq> ws"
    and "readyState s c = OPEN"
  shows "sent_to (shipped_on_message s ws m) ws = sent_to s ws
       \<and> sent_to (shipped_on_message s ws m) c = sent_to s c @ [Text (''Broadcast: '' @ m)]
       \<and> (JSON_parse env data = Some msg \<and> member ''type'' msg = Inr (Some (JStr ''broadcast''))
            \<longrightarrow> sent_to (generated_on_message env s ws data) ws = sent_to s ws
              \<and> (\<exists>d k. member ''data'' msg = Inr d
                    \<and> sent_to (generated_on_message env s ws data) c
                        = sent_to s c @ [Stringified (broadcast_msg d (JStr (toISOString env k)))]))
       \<and> (readyState s c' \<noteq> OPEN
            \<longrightarrow> sent_to (shipped_on_message s ws m) c' = sent_to s c'
              \<and> (JSON_parse env data = Some msg
                   \<and> member ''type'' msg = Inr (Some (JStr ''broadcast''))
                    \<longrightarrow> sent_to (generated_on_message env s ws data) c' = sent_to s c'))"
proof (intro conjI impI)
  assume "readyState s c' \<noteq> OPEN"
  then show "sent_to (shipped_on_message s ws m) c' = sent_to s c'"
    by (rule shipped_on_message_skips)
next
  assume "readyState s c' \<noteq> OPEN"
    and "JSON_parse env data = Some msg \<and> member ''type'' msg = Inr (Some (JStr ''broadcast''))"
  then show "sent_to (generated_on_message env s ws data) c' = sent_to s c'"
    by (simp add: generated_broadcast_skips)
next
  let ?R = "\<lambda>s. filter (\<lambda>c. c \<noteq> ws \<and> readyState s c = OPEN) (clients s)"
  have dR: "distinct (?R s)" using assms(1) by simp
  have cR: "c \<in> set (?R s)" using assms by simp
  have wR: "ws \<notin> set (?R s)" by simp
  let ?p = "Text (''Broadcast: '' @ m) :: 'n payload"
  from wR have "filter (\<lambda>e. fst e = ws) (stamped (\<lambda>_. ?p) (length (sent s)) (?R s)) = []"
    by (rule stamped_absent)
  then show "sent_to (shipped_on_message s ws m) ws = sent_to s ws"
    by (simp add: sent_to_shipped_on_message)
  from stamped_once [OF dR cR, of "length (sent s)" "\<lambda>_. ?p"]
  have "filter (\<lambda>e. fst e = c) (stamped (\<lambda>_. ?p) (length (sent s)) (?R s)) = [(c, ?p)]"
    by blast
  then show "sent_to (shipped_on_message s ws m) c = sent_to s c @ [Text (''Broadcast: '' @ m)]"
    by (simp add: sent_to_shipped_on_message)
  {
    assume a: "JSON_parse env data = Some msg \<and> member ''type'' msg = Inr (Some (JStr ''broadcast''))"
    let ?s1 = "console_log [Str ''[WebSocket] Received:'', Obj msg] s"
    from a obtain d where d: "member ''data'' msg = Inr d" and
      eq: "generated_on_message env s ws data = generated_broadcast env ?s1 ws d"
      using generated_on_message_broadcast [of env data msg s ws] by blast
    have R1: "?R ?s1 = ?R s" by (simp add: console_log_def)
    let ?mk = "\<lambda>n. Stringified (broadcast_msg d (JStr (toISOString env n)))"
    show "sent_to (generated_on_message env s ws data) ws = sent_to s ws"
      using stamped_absent [OF wR, of ?mk "length (sent ?s1)"]
      by (simp add: eq generated_broadcast_eq sent_to_append R1)
    from stamped_once [OF dR cR, of "length (sent ?s1)" ?mk] obtain k where
      "filter (\<lambda>e. fst e = c) (stamped ?mk (length (sent ?s1)) (?R s)) = [(c, ?mk k)]"
      by blast
    then have "sent_to (generated_on_message env s ws data) c = sent_to s c @ [?mk k]"
      by (simp add: eq generated_broadcast_eq sent_to_append R1)
    with d show "\<exists>d k. member ''data'' msg = Inr d
                    \<and> sent_to (generated_on_message env s ws data) c
                        = sent_to s c @ [Stringified (broadcast_msg d (JStr (toISOString env k)))]"
      by blast
  }
qed


theorem broadcast_excludes_sender_reaches_open_witness:
  "distinct (clients example_server) \<and> 1 \<in> set (clients example_server) \<and> (1::nat) \<noteq> 0
   \<and> readyState example_server 1 = OPEN
   \<and> sent_to (shipped_on_message example_server 0 ''hi'') 0 = []
   \<and> sent_to (shipped_on_message example_server 0 ''hi'') 1 = [Text ''Broadcast: hi'']
   \<and> sent_to (generated_on_message example_env example_server 0 broadcast_frame) 0 = []
   \<and> (\<exists>k. sent_to (generated_on_message example_env example_server 0 broadcast_frame) 1
              = [Stringified (broadcast_msg (Some (JStr ''hi'')) (JStr (toISOString example_env k)))])
   \<and> readyState example_server 2 \<noteq> OPEN
   \<and> sent_to (shipped_on_message example_server 0 ''hi'') 2 = []
   \<and> sent_to (generated_on_message example_env example_server 0 broadcast_frame) 2 = []"
proof -
  have h: "distinct (clients example_server)" "1 \<in> set (clients example_server)"
    "(1::nat) \<noteq> 0" "readyState example_server 1 = OPEN"
    by (simp_all add: example_server_def)
  have p: "JSON_parse example_env broadcast_frame
             = Some (JObj [(''type'', JStr ''broadcast''), (''data'', JStr ''hi'')])"
    by (simp add: example_env_def broadcast_frame_def ping_frame_def dq_def)
  have e: "sent_to example_server 0 = []" "sent_to example_server 1 = []"
    "sent_to example_server 2 = []"
    by (simp_all add: example_server_def sent_to_def)
  have q: "readyState example_server 2 \<noteq> OPEN" by (simp add: example_server_def)
  show ?thesis
    using h p e q
      broadcast_excludes_sender_reaches_open [OF h, where m = "''hi''" and env = example_env
        and data = broadcast_frame
        and msg = "JObj [(''type'', JStr ''broadcast''), (''data'', JStr ''hi'')]"
        and c' = 2]
    by simp
qed

section \<open>Ping\<close>

text \<open>
  Claim C2 says that a ping is answered with one pong to the sender and nothing else.
  The shipped handler has no ping case: with sockets 0 and 1 open, the ping frame from
  socket 0 is rebroadcast to socket 1 and socket 0 is sent nothing.
\<close>

theorem shipped_ping_gets_no_pong_counterexample:
  "sent (shipped_on_message example_server 0 ping_frame)
     = [(1, Text (''Broadcast: '' @ ping_frame))]
   \<and> sent_to (shipped_on_message example_server 0 ping_frame) 0 = []"
  by (simp add: shipped_on_message_eq example_server_def sent_to_def)

text \<open>
  Claim C2, amended.  In the handler that setup.sh generates, a frame that parses to a
  value whose \<^verbatim>\<open>type\<close> is \<^verbatim>\<open>"ping"\<close> adds exactly one call of \<^verbatim>\<open>send\<close>: a
  payload tagged \<^verbatim>\<open>pong\<close>, to the sender.  No other connection \<open>c\<close> is sent
  anything.
\<close>

theorem generated_ping_gets_one_pong:
  fixes s :: "'n server"
  assumes "JSON_parse env data = Some msg"
    and "member ''type'' msg = Inr (Some (JStr ''ping''))"
  shows "sent (generated_on_message env s ws data)
           = sent s @ [(ws, Stringified (pong_msg (JStr (toISOString env (length (sent s))))))]
       \<and> tagged ''pong''
           (Stringified (pong_msg (JStr (toISOString env (length (sent s))))) :: 'n payload)
       \<and> (c \<noteq> ws \<longrightarrow> sent_to (generated_on_message env s ws data) c = sent_to s c)"
  by (simp add: generated_on_message_ping [OF assms] send_def console_log_def sent_to_def
      pong_msg_def)

theorem generated_ping_gets_one_pong_witness:
  "JSON_parse example_env ping_frame = Some (JObj [(''type'', JStr ''ping'')])
   \<and> sent (generated_on_message example_env example_server 0 ping_frame)
       = [(0, Stringified (JObj [(''type'', JStr ''pong''),
                                 (''timestamp'', JStr ''2025-06-06T00:00:00.000Z'')]))]
   \<and> sent_to (generated_on_message example_env example_server 0 ping_frame) 1 = []"
  using generated_ping_gets_one_pong [of example_env ping_frame
      "JObj [(''type'', JStr ''ping'')]" example_server 0 1]
  by (simp add: example_parse example_server_def sent_to_def pong_msg_def)

section \<open>Frames that do not parse\<close>

text \<open>
  Claim C3 says that a frame that fails to parse is answered to the sender alone.  The
  shipped handler does not parse: the text \<^verbatim>\<open>not json\<close> from socket 0 is rebroadcast
  to socket 1 and socket 0 gets no reply.
\<close>

theorem shipped_malformed_gets_no_reply_counterexample:
  "sent (shipped_on_message example_server 0 ''not json'') = [(1, Text ''Broadcast: not json'')]
   \<and> sent_to (shipped_on_message example_server 0 ''not json'') 0 = []"
  by (simp add: shipped_on_message_eq example_server_def sent_to_def)

text \<open>
  Claim C3, amended.  In the handler that setup.sh generates, a frame on which
  \<^verbatim>\<open>JSON.parse\<close> throws adds exactly one call of \<^verbatim>\<open>send\<close>: a payload tagged
  \<^verbatim>\<open>error\<close> with the message \<^verbatim>\<open>Invalid JSON format\<close>, to the sender.  The handler
  closes nothing: every socket keeps its \<^verbatim>\<open>readyState\<close>, and the set of clients and
  the listeners stay as they were.
\<close>

theorem generated_parse_failure_gets_error_reply:
  fixes s :: "'n server"
  assumes "JSON_parse env data = None"
  shows "sent (generated_on_message env s ws data)
           = sent s @ [(ws, Stringified (error_msg (JStr (toISOString env (length (sent s))))))]
       \<and> tagged ''error''
           (Stringified (error_msg (JStr (toISOString env (length (sent s))))) :: 'n payload)
       \<and> readyState (generated_on_message env s ws data) = readyState s
       \<and> clients (generated_on_message env s ws data) = clients s
       \<and> listening (generated_on_message env s ws data) = listening s"
  by (simp add: generated_on_message_syntax_error [OF assms] send_def console_log_def
      error_msg_def)

theorem generated_parse_failure_gets_error_reply_witness:
  "JSON_parse example_env ''not json'' = None
   \<and> sent (generated_on_message example_env example_server 0 ''not json'')
       = [(0, Stringified (JObj [(''type'', JStr ''error''),
                                 (''message'', JStr ''Invalid JSON format''),
                                 (''timestamp'', JStr ''2025-06-06T00:00:00.000Z'')]))]
   \<and> readyState (generated_on_message example_env example_server 0 ''not json'') 0 = OPEN"
  using generated_parse_failure_gets_error_reply [of example_env "''not json''" example_server 0]
  by (simp add: example_parse example_server_def error_msg_def)

section \<open>Echo as the default\<close>

text \<open>
  Claim C4 says that an echo request, or a message of any kind not otherwise
  recognised, is sent back to the sender alone.  The shipped handler never sends to the
  sender: a frame of type \<^verbatim>\<open>chat\<close> from socket 0 is rebroadcast to socket 1.
\<close>

theorem shipped_unknown_kind_gets_no_echo_counterexample:
  "sent (shipped_on_message example_server 0 chat_frame)
     = [(1, Text (''Broadcast: '' @ chat_frame))]
   \<and> sent_to (shipped_on_message example_server 0 chat_frame) 0 = []"
  by (simp add: shipped_on_message_eq example_server_def sent_to_def)

text \<open>
  Claim C4, amended.  In the handler that setup.sh generates, a frame that parses to a
  value other than \<^verbatim>\<open>null\<close> (so that reading \<^verbatim>\<open>type\<close> yields \<open>t\<close>, possibly
  \<^verbatim>\<open>undefined\<close>) with \<open>t\<close> neither \<^verbatim>\<open>"ping"\<close> nor \<^verbatim>\<open>"broadcast"\<close> adds exactly
  one call of \<^verbatim>\<open>send\<close>: a payload tagged \<^verbatim>\<open>echo\<close> that carries the parsed message
  as \<^verbatim>\<open>originalMessage\<close>, to the sender.  No other connection \<open>c\<close> is sent anything.
\<close>

theorem generated_default_echoes_to_sender:
  assumes "JSON_parse env data = Some msg"
    and "member ''type'' msg = Inr t"
    and "t \<noteq> Some (JStr ''ping'')" and "t \<noteq> Some (JStr ''broadcast'')"
  shows "sent (generated_on_message env s ws data)
           = sent s @ [(ws, Stringified (echo_msg env msg (JStr (toISOString env (length (sent s))))))]
       \<and> tagged ''echo'' (Stringified (echo_msg env msg (JStr (toISOString env (length (sent s))))))
       \<and> member ''originalMessage'' (echo_msg env msg (JStr (toISOString env (length (sent s)))))
           = Inr (Some msg)
       \<and> (c \<noteq> ws \<longrightarrow> sent_to (generated_on_message env s ws data) c = sent_to s c)"
  by (simp add: generated_on_message_default [OF assms] send_def console_log_def sent_to_def
      echo_msg_def)

theorem generated_default_echoes_to_sender_witness:
  "JSON_parse example_env chat_frame = Some (JObj [(''type'', JStr ''chat'')])
   \<and> member ''type'' (JObj [(''type'', JStr ''chat'')] :: nat json) = Inr (Some (JStr ''chat''))
   \<and> sent (generated_on_message example_env example_server 0 chat_frame)
       = [(0, Stringified (JObj [(''type'', JStr ''echo''),
                                 (''originalMessage'', JObj [(''type'', JStr ''chat'')]),
                                 (''timestamp'', JStr ''2025-06-06T00:00:00.000Z''),
                                 (''echo'', JStr (''Server received: '' @ chat_frame))]))]
   \<and> sent_to (generated_on_message example_env example_server 0 chat_frame) 1 = []"
  using generated_default_echoes_to_sender [of example_env chat_frame
      "JObj [(''type'', JStr ''chat'')]" "Some (JStr ''chat'')" example_server 0 1]
  by (simp add: example_parse example_server_def sent_to_def echo_msg_def)

section \<open>The health routes\<close>

text \<open>
  Claim C5 says that the health response holds an up/down indicator and the current
  connection count.  The shipped \<^verbatim>\<open>GET /health\<close> answers \<^verbatim>\<open>{status: "UP"}\<close> and
  nothing else: with three connections registered, no property of the body is the
  number 3.
\<close>

theorem health_has_no_connection_count_counterexample:
  "length (clients example_server) = 3
   \<and> JNum (length (clients example_server))
         \<notin> snd ` set (properties (body (shipped_health :: nat response)))"
  by (simp add: shipped_health_def example_server_def)

text \<open>
  Claim C5, amended.  The health response is written synchronously with code 200 and
  holds an up indicator: \<^verbatim>\<open>status: "UP"\<close> as the only property of the shipped
  \<^verbatim>\<open>/health\<close>, and \<^verbatim>\<open>status: "ok"\<close> next to \<^verbatim>\<open>timestamp\<close>, \<^verbatim>\<open>uptime\<close> (of the
  process) and \<^verbatim>\<open>environment\<close> in the generated \<^verbatim>\<open>/status\<close>.  Neither route reads the
  WebSocket server (the responses are a constant and a function of the process alone), so
  no connection count and no other state of it is in the response.
\<close>

theorem health_reports_status_only:
  fixes p :: "'n process"
  shows "status_code (shipped_health :: 'n response) = 200
   \<and> properties (body (shipped_health :: 'n response)) = [(''status'', JStr ''UP'')]
   \<and> status_code (generated_status p) = 200
   \<and> map fst (properties (body (generated_status p)))
       = [''status'', ''timestamp'', ''uptime'', ''environment'']
   \<and> map_of (properties (body (generated_status p))) ''status'' = Some (JStr ''ok'')
   \<and> map_of (properties (body (generated_status p))) ''timestamp'' = Some (JStr (now p))
   \<and> map_of (properties (body (generated_status p))) ''uptime'' = Some (JNum (uptime p))"
  by (simp add: shipped_health_def generated_status_def)

theorem health_reports_status_only_witness:
  "properties (body (shipped_health :: nat response)) = [(''status'', JStr ''UP'')]
   \<and> map_of (properties (body (generated_status
         \<lparr>now = ''2025-06-06T00:00:00.000Z'', uptime = (12::nat), NODE_ENV = None\<rparr>)))
       ''uptime'' = Some (JNum 12)
   \<and> properties (body (generated_status
         \<lparr>now = ''2025-06-06T00:00:00.000Z'', uptime = (12::nat), NODE_ENV = None\<rparr>))
       = [(''status'', JStr ''ok''), (''timestamp'', JStr ''2025-06-06T00:00:00.000Z''),
          (''uptime'', JNum 12), (''environment'', JStr ''development'')]"
  using health_reports_status_only
      [of "\<lparr>now = ''2025-06-06T00:00:00.000Z'', uptime = (12::nat), NODE_ENV = None\<rparr>"]
  by (simp add: generated_status_def)

section \<open>No bound on what is sent\<close>

text \<open>
  Claim C6 says that a send to a connection whose outbound queue is at capacity fails
  with QueueFull and moves that connection from Open to Closing.  The shipped fan-out has
  no queue and no capacity: whatever number \<open>n\<close> of calls is already logged for socket
  1, the next broadcast from socket 0 is sent to socket 1 as well and socket 1 stays
  OPEN.  So for no capacity does reaching it close the connection or refuse the message.
\<close>

theorem shipped_send_never_closes_counterexample:
  "\<not> (\<exists>cap. \<forall>n. cap \<le> n \<longrightarrow>
         readyState (shipped_on_message (flooded n) 0 ''x'') 1 = CLOSING
         \<or> sent_to (shipped_on_message (flooded n) 0 ''x'') 1 = sent_to (flooded n) 1)"
proof
  assume "\<exists>cap. \<forall>n. cap \<le> n \<longrightarrow>
         readyState (shipped_on_message (flooded n) 0 ''x'') 1 = CLOSING
         \<or> sent_to (shipped_on_message (flooded n) 0 ''x'') 1 = sent_to (flooded n) 1"
  then obtain cap where
    "readyState (shipped_on_message (flooded cap) 0 ''x'') 1 = CLOSING
     \<or> sent_to (shipped_on_message (flooded cap) 0 ''x'') 1 = sent_to (flooded cap) 1"
    by blast
  then show False
    by (simp add: shipped_on_message_eq flooded_def sent_to_def)
qed

text \<open>
  Claim C6, amended.  The shipped fan-out has no bounded queue: however much was sent
  before, it calls \<^verbatim>\<open>send\<close> exactly once on each other open client (so each
  registered open client \<open>c\<close> other than the sender is among the new calls), without
  looking at a result.  It changes no \<^verbatim>\<open>readyState\<close> and no registration, keeps
  everything logged before, and what it sends does not depend on how much was sent
  before to anyone (two states with the same clients in the same states get the same new
  calls).
\<close>

theorem shipped_fanout_has_no_queue_bound:
  fixes s s' :: "'n server"
  shows "readyState (shipped_on_message s ws m) = readyState s
   \<and> clients (shipped_on_message s ws m) = clients s
   \<and> take (length (sent s)) (sent (shipped_on_message s ws m)) = sent s
   \<and> (clients s' = clients s \<and> readyState s' = readyState s \<longrightarrow>
        drop (length (sent s')) (sent (shipped_on_message s' ws m))
          = drop (length (sent s)) (sent (shipped_on_message s ws m)))
   \<and> drop (length (sent s)) (sent (shipped_on_message s ws m))
       = map (\<lambda>c. (c, Text (''Broadcast: '' @ m)))
             (filter (\<lambda>c. c \<noteq> ws \<and> readyState s c = OPEN) (clients s))
   \<and> (c \<in> set (clients s) \<and> c \<noteq> ws \<and> readyState s c = OPEN \<longrightarrow>
        (c, Text (''Broadcast: '' @ m))
          \<in> set (drop (length (sent s)) (sent (shipped_on_message s ws m))))"
  by (simp add: shipped_on_message_eq)

theorem shipped_fanout_has_no_queue_bound_witness:
  "clients (flooded 5) = clients (flooded 0) \<and> readyState (flooded 5) = readyState (flooded 0)
   \<and> readyState (shipped_on_message (flooded 5) 0 ''x'') 1 = OPEN
   \<and> length (sent (flooded 5)) = 5
   \<and> 1 \<in> set (clients (flooded 5)) \<and> (1::nat) \<noteq> 0 \<and> readyState (flooded 5) 1 = OPEN
   \<and> drop 5 (sent (shipped_on_message (flooded 5) 0 ''x'')) = [(1, Text ''Broadcast: x'')]
   \<and> (1, Text ''Broadcast: x'') \<in> set (drop 5 (sent (shipped_on_message (flooded 5) 0 ''x'')))"
  using shipped_fanout_has_no_queue_bound [of "flooded 5" 0 "''x''" "flooded 0" 1]
  by (simp add: flooded_def)

section \<open>The welcome\<close>

text \<open>
  Claim C8.  In both handlers the connection callback calls \<^verbatim>\<open>send\<close> exactly once, on
  the new socket, with the welcome.  Along every run in which each socket is announced by
  at most one connection event, a socket that has listeners has been sent exactly one
  welcome, and a message of a socket without listeners is not processed: no inbound
  message of a client is handled before its welcome was sent.
\<close>

theorem welcome_sent_once_on_connection:
  fixes s :: "'n server"
  assumes "distinct (connections es)"
  shows "sent (shipped_on_connection s ws) = sent s @ [(ws, shipped_welcome)]
       \<and> (ws \<in> set (listening (shipped_run es :: 'n server)) \<longrightarrow>
            welcomes (\<lambda>p. p = shipped_welcome) (shipped_run es :: 'n server) ws = 1)
       \<and> (ws \<notin> set (listening (shipped_run es :: 'n server)) \<longrightarrow>
            shipped_dispatch (shipped_run es :: 'n server) (Message ws m) = shipped_run es)
       \<and> sent (generated_on_connection env s ws ip)
           = sent s @ [(ws, Stringified (welcome_msg (JStr (toISOString env (length (sent s))))))]
       \<and> tagged ''welcome''
           (Stringified (welcome_msg (JStr (toISOString env (length (sent s))))) :: 'n payload)
       \<and> (ws \<in> set (listening (generated_run env es)) \<longrightarrow>
            welcomes (tagged ''welcome'') (generated_run env es) ws = 1)
       \<and> (ws \<notin> set (listening (generated_run env es)) \<longrightarrow>
            generated_dispatch env (generated_run env es) (Message ws m) = generated_run env es)"
proof (intro conjI impI)
  show "sent (shipped_on_connection s ws) = sent s @ [(ws, shipped_welcome)]"
    by (simp add: shipped_on_connection_def send_def register_listeners_def console_log_def)
  show "sent (generated_on_connection env s ws ip)
           = sent s @ [(ws, Stringified (welcome_msg (JStr (toISOString env (length (sent s))))))]"
    by (simp add: generated_on_connection_def send_def register_listeners_def console_log_def
        Let_def timestamp_def)
  show "tagged ''welcome''
          (Stringified (welcome_msg (JStr (toISOString env (length (sent s))))) :: 'n payload)"
    by (simp add: welcome_msg_def)
next
  assume "ws \<in> set (listening (shipped_run es :: 'n server))"
  then have "ws \<in> set (connections es)"
    by (simp add: shipped_run_def shipped_foldl_listening shipped_setupWebSocket_def)
  with assms have "count_list (connections es) ws = 1" by (simp add: count_list_distinct)
  then show "welcomes (\<lambda>p. p = shipped_welcome) (shipped_run es :: 'n server) ws = 1"
    by (simp add: shipped_run_def shipped_foldl_welcomes)
      (simp add: welcomes_def sent_to_def shipped_setupWebSocket_def)
next
  assume "ws \<notin> set (listening (shipped_run es :: 'n server))"
  then show "shipped_dispatch (shipped_run es :: 'n server) (Message ws m) = shipped_run es"
    by simp
next
  assume "ws \<in> set (listening (generated_run env es))"
  then have "ws \<in> set (connections es)"
    by (simp add: generated_run_def generated_foldl_listening generated_setupWebSocket_def)
  with assms have "count_list (connections es) ws = 1" by (simp add: count_list_distinct)
  then show "welcomes (tagged ''welcome'') (generated_run env es) ws = 1"
    by (simp add: generated_run_def generated_foldl_welcomes)
      (simp add: welcomes_def sent_to_def generated_setupWebSocket_def)
next
  assume "ws \<notin> set (listening (generated_run env es))"
  then show "generated_dispatch env (generated_run env es) (Message ws m) = generated_run env es"
    by simp
qed


theorem welcome_sent_once_on_connection_witness:
  "distinct (connections example_events)
   \<and> 1 \<in> set (listening (shipped_run example_events :: nat server))
   \<and> welcomes (\<lambda>p. p = shipped_welcome) (shipped_run example_events :: nat server) 1 = 1
   \<and> 1 \<in> set (listening (generated_run example_env example_events))
   \<and> welcomes (tagged ''welcome'') (generated_run example_env example_events) 1 = 1
   \<and> 7 \<notin> set (listening (shipped_run example_events :: nat server))
   \<and> shipped_dispatch (shipped_run example_events :: nat server) (Message 7 ''hi'')
       = shipped_run example_events"
proof -
  have h: "distinct (connections example_events)" by (simp add: example_events_def)
  show ?thesis
    using h
      welcome_sent_once_on_connection [OF h, of "shipped_run example_events :: nat server" 1
        "''hi''" example_env "''10.0.0.2''"]
      welcome_sent_once_on_connection [OF h, of "shipped_run example_events :: nat server" 7
        "''hi''" example_env "''10.0.0.2''"]
    by (simp add: example_run)
qed


end
